theory Spec2Isabelle
  imports Main "HOL-Library.Sublist"
begin

section \<open>The git diff analyzer: a shallow embedding of \<^verbatim>\<open>git-diff-analyzer.py\<close>\<close>

text \<open>
  The program shells out to \<^verbatim>\<open>git diff\<close>, sends the diff to the Anthropic messages
  endpoint, falls back to the OpenAI chat endpoint when that raises, and prints the answer.
  Everything it does is an effect, so the model threads a state holding the trace of the
  effects in program order, and takes the outside world (environment variables, the shell,
  the two endpoints) as a parameter.  Every function returns a sum: \<open>Inl\<close> is an
  exception leaving the function, \<open>Inr\<close> its return value.
\<close>

subsection \<open>Exceptions\<close>

text \<open>
  An exception is its class, as far as a handler of the program can tell classes apart, and
  the text \<^verbatim>\<open>str(e)\<close> that the f-strings of the handlers splice in.  The program has
  two kinds of handler: \<^verbatim>\<open>except subprocess.CalledProcessError\<close>, and
  \<^verbatim>\<open>except Exception\<close>, which is a class check too: it catches the first three
  classes below and lets a \<open>KeyboardInterrupt\<close> pass.  \<open>KeyboardInterrupt\<close> stands for
  every class that derives from \<^verbatim>\<open>BaseException\<close> but not from \<^verbatim>\<open>Exception\<close>
  (\<^verbatim>\<open>SystemExit\<close> and \<^verbatim>\<open>GeneratorExit\<close> are the others); \<open>OtherException\<close> for
  every further subclass of \<^verbatim>\<open>Exception\<close>.
\<close>

datatype exn_class = CalledProcessError | IndexError | OtherException | KeyboardInterrupt

datatype exn = Exn exn_class string

text \<open>\<^verbatim>\<open>isinstance(e, Exception)\<close>, which \<^verbatim>\<open>except Exception\<close> tests.\<close>

fun is_Exception :: "exn_class \<Rightarrow> bool" where
  "is_Exception CalledProcessError = True"
| "is_Exception IndexError = True"
| "is_Exception OtherException = True"
| "is_Exception KeyboardInterrupt = False"

subsection \<open>Requests, effects and the state\<close>

record message =
  role :: string
  content :: string

text \<open>The keyword arguments of \<^verbatim>\<open>messages.create\<close> and \<^verbatim>\<open>ChatCompletion.create\<close>.\<close>

record request =
  model :: string
  max_tokens :: int
  messages :: "message list"

datatype event =
    Print string
  | CheckOutput string
  | MessagesCreate request
  | ChatCompletionCreate request

text \<open>
  \<open>openai_api_key_global\<close> is the module attribute \<^verbatim>\<open>openai.api_key\<close>, the only
  variable the program assigns outside an object of its own.
\<close>

record state =
  openai_api_key_global :: "string option"
  trace :: "event list"

definition emit :: "event \<Rightarrow> state \<Rightarrow> state" where
  "emit e s = s\<lparr>trace := trace s @ [e]\<rparr>"

subsection \<open>The outside world\<close>

text \<open>
  \<^item> \<open>getenv\<close> is \<^verbatim>\<open>os.getenv\<close>.
  \<^item> \<open>check_output\<close> is \<^verbatim>\<open>subprocess.check_output(cmd, shell=True, text=True)\<close>: the
    captured output, or the exception it raises.  The library raises
    \<open>CalledProcessError\<close> when the command exits with a non-zero status; anything else
    it raises (the output does not decode, the shell cannot be started) is of another
    class and is not caught by \<open>get_git_diff\<close>.
  \<^item> \<open>messages_create\<close> is \<^verbatim>\<open>Anthropic(api_key=k).messages.create\<close>: the texts of the
    blocks of \<^verbatim>\<open>response.content\<close>, or the exception raised.
  \<^item> \<open>ChatCompletion_create\<close> is \<^verbatim>\<open>openai.ChatCompletion.create\<close> under the current
    \<^verbatim>\<open>openai.api_key\<close>: the message contents of \<^verbatim>\<open>response.choices\<close>, or the
    exception raised.
\<close>

record world =
  getenv :: "string \<Rightarrow> string option"
  check_output :: "string \<Rightarrow> exn + string"
  messages_create :: "string option \<Rightarrow> request \<Rightarrow> exn + string list"
  ChatCompletion_create :: "string option \<Rightarrow> request \<Rightarrow> exn + string list"

text \<open>Truth value of an \<^verbatim>\<open>Optional[str]\<close>: \<^verbatim>\<open>None\<close> and the empty string are false.\<close>

fun truthy :: "string option \<Rightarrow> bool" where
  "truthy None = False"
| "truthy (Some v) = (v \<noteq> [])"

text \<open>\<^verbatim>\<open>xs[0]\<close> on a Python list: an \<^verbatim>\<open>IndexError\<close> when the list is empty.\<close>

fun index0 :: "string list \<Rightarrow> exn + string" where
  "index0 [] = Inl (Exn IndexError ''list index out of range'')"
| "index0 (x # xs) = Inr x"

subsection \<open>The class \<^verbatim>\<open>DiffAnalyzer\<close>\<close>

text \<open>\<open>anthropic\<close> stands for the client object, which is determined by its key.\<close>

record DiffAnalyzer =
  anthropic :: "string option"
  openai_api_key :: "string option"

definition DiffAnalyzer_init ::
  "string option \<Rightarrow> string option \<Rightarrow> state \<Rightarrow> DiffAnalyzer \<times> state" where
  "DiffAnalyzer_init anthropic_api_key openai_key_arg s =
     (\<lparr>anthropic = anthropic_api_key, openai_api_key = openai_key_arg\<rparr>,
      if truthy openai_key_arg then s\<lparr>openai_api_key_global := openai_key_arg\<rparr> else s)"

definition get_git_diff ::
  "world \<Rightarrow> DiffAnalyzer \<Rightarrow> string \<Rightarrow> state \<Rightarrow> (exn + string) \<times> state" where
  "get_git_diff w self tgt s =
     (let diff_command = ''git diff '' @ tgt @ '' -- . ':!package*.json'' @ [CHR 0x27];
          s1 = emit (CheckOutput diff_command) s
      in case check_output w diff_command of
           Inr diff_output \<Rightarrow> (Inr diff_output, s1)
         | Inl (Exn c e) \<Rightarrow>
             if c = CalledProcessError
             then (Inr [], emit (Print (''Error getting git diff: '' @ e)) s1)
             else (Inl (Exn c e), s1))"

text \<open>
  The f-string of \<^verbatim>\<open>analyze_with_claude\<close> and the keyword arguments it passes; then the
  body of its \<^verbatim>\<open>try\<close> block: the call and \<^verbatim>\<open>response.content[0].text\<close>.
\<close>

definition claude_prompt :: "string \<Rightarrow> string" where
  "claude_prompt diff_text =
     ''ignoring the changes that were computer-generated, can you estimate how long ''
     @ ''this took a human to write this code, assuming they appropriately used AI ''
     @ ''to help them? please go section by section.\<newline>\<newline>''
     @ ''Here's the diff to analyze:\<newline>'' @ diff_text"

definition claude_request :: "string \<Rightarrow> request" where
  "claude_request diff_text =
     \<lparr>model = ''claude-3-sonnet-20240229'', max_tokens = 1000,
      messages = [\<lparr>role = ''user'', content = claude_prompt diff_text\<rparr>]\<rparr>"

definition claude_try :: "world \<Rightarrow> DiffAnalyzer \<Rightarrow> string \<Rightarrow> exn + string" where
  "claude_try w self diff_text =
     (case messages_create w (anthropic self) (claude_request diff_text) of
        Inl e \<Rightarrow> Inl e
      | Inr response \<Rightarrow> index0 response)"

text \<open>
  The same three pieces of \<^verbatim>\<open>analyze_with_chatgpt\<close>, written out from its own lines:
  the f-string, the keyword arguments, and the call with
  \<^verbatim>\<open>response.choices[0].message.content\<close>.
\<close>

definition chatgpt_prompt :: "string \<Rightarrow> string" where
  "chatgpt_prompt diff_text =
     ''ignoring the changes that were computer-generated, can you estimate how long ''
     @ ''this took a human to write this code, assuming they appropriately used AI ''
     @ ''to help them? please go section by section.\<newline>\<newline>''
     @ ''Here's the diff to analyze:\<newline>'' @ diff_text"

definition chatgpt_request :: "string \<Rightarrow> request" where
  "chatgpt_request diff_text =
     \<lparr>model = ''gpt-4'', max_tokens = 1000,
      messages = [\<lparr>role = ''user'', content = chatgpt_prompt diff_text\<rparr>]\<rparr>"

definition chatgpt_try :: "world \<Rightarrow> state \<Rightarrow> string \<Rightarrow> exn + string" where
  "chatgpt_try w s diff_text =
     (case ChatCompletion_create w (openai_api_key_global s) (chatgpt_request diff_text) of
        Inl e \<Rightarrow> Inl e
      | Inr response \<Rightarrow> index0 response)"

definition analyze_with_chatgpt ::
  "world \<Rightarrow> DiffAnalyzer \<Rightarrow> string \<Rightarrow> state \<Rightarrow> (exn + string) \<times> state" where
  "analyze_with_chatgpt w self diff_text s =
     (if \<not> truthy (openai_api_key self)
      then (Inr ''OpenAI API key not provided for fallback.'', s)
      else
        let s1 = emit (ChatCompletionCreate (chatgpt_request diff_text)) s
        in case chatgpt_try w s diff_text of
             Inr text \<Rightarrow> (Inr text, s1)
           | Inl (Exn c e) \<Rightarrow>
               if is_Exception c
               then (Inr (''Error analyzing diff with ChatGPT: '' @ e), s1)
               else (Inl (Exn c e), s1))"

definition analyze_with_claude ::
  "world \<Rightarrow> DiffAnalyzer \<Rightarrow> string \<Rightarrow> state \<Rightarrow> (exn + string) \<times> state" where
  "analyze_with_claude w self diff_text s =
     (let s1 = emit (MessagesCreate (claude_request diff_text)) s
      in case claude_try w self diff_text of
           Inr text \<Rightarrow> (Inr text, s1)
         | Inl (Exn c e) \<Rightarrow>
             if is_Exception c
             then
               (let s2 = emit (Print (''Error with Claude API: '' @ e)) s1
                in if truthy (openai_api_key self)
                   then analyze_with_chatgpt w self diff_text
                          (emit (Print ''Falling back to ChatGPT...'') s2)
                   else (Inr (''Error analyzing diff: '' @ e), s2))
             else (Inl (Exn c e), s1))"

subsection \<open>The command line\<close>

text \<open>
  What the user typed: the positional target and the two optional flags.  \<open>parse_args\<close>
  is \<^verbatim>\<open>argparse\<close> with the defaults of the program: a flag that is absent takes the
  value of its environment variable.
\<close>

record argv =
  argv_target :: string
  argv_anthropic_key :: "string option"
  argv_openai_key :: "string option"

record args =
  target :: string
  anthropic_key :: "string option"
  openai_key :: "string option"

definition parse_args :: "world \<Rightarrow> argv \<Rightarrow> args" where
  "parse_args w av =
     \<lparr>target = argv_target av,
      anthropic_key =
        (case argv_anthropic_key av of Some k \<Rightarrow> Some k
         | None \<Rightarrow> getenv w ''ANTHROPIC_API_KEY''),
      openai_key =
        (case argv_openai_key av of Some k \<Rightarrow> Some k
         | None \<Rightarrow> getenv w ''OPENAI_API_KEY'')\<rparr>"

definition main :: "world \<Rightarrow> argv \<Rightarrow> state \<Rightarrow> (exn + unit) \<times> state" where
  "main w av s =
     (let a = parse_args w av
      in if \<not> truthy (anthropic_key a)
         then (Inr (), emit (Print (''Error: Anthropic API key not provided. ''
                 @ ''Set ANTHROPIC_API_KEY environment variable or use --anthropic-key'')) s)
         else
           (case DiffAnalyzer_init (anthropic_key a) (openai_key a) s of
              (analyzer, s1) \<Rightarrow>
                (case get_git_diff w analyzer (target a) s1 of
                   (Inl e, s2) \<Rightarrow> (Inl e, s2)
                 | (Inr diff_text, s2) \<Rightarrow>
                     if diff_text = []
                     then (Inr (), emit (Print ''No diff found or error occurred'') s2)
                     else
                       (case analyze_with_claude w analyzer diff_text s2 of
                          (Inl e, s3) \<Rightarrow> (Inl e, s3)
                        | (Inr analysis, s3) \<Rightarrow>
                            (Inr (),
                             emit (Print analysis)
                               (emit (Print ''----------------'')
                                  (emit (Print ''\<newline>Analysis Results:'') s3)))))))"

subsection \<open>Observing a run\<close>

text \<open>
  What a run did is read off the trace: the events added since a given state, the commands
  handed to the shell, the requests sent to either endpoint and the prompts they carry.
\<close>

definition new_events :: "state \<Rightarrow> state \<Rightarrow> event list" where
  "new_events s s' = drop (length (trace s)) (trace s')"

fun external_call :: "event \<Rightarrow> bool" where
  "external_call (Print t) = False"
| "external_call (CheckOutput c) = True"
| "external_call (MessagesCreate r) = True"
| "external_call (ChatCompletionCreate r) = True"

fun shell_commands :: "event list \<Rightarrow> string list" where
  "shell_commands [] = []"
| "shell_commands (CheckOutput c # es) = c # shell_commands es"
| "shell_commands (e # es) = shell_commands es"

fun requests_sent :: "event list \<Rightarrow> request list" where
  "requests_sent [] = []"
| "requests_sent (MessagesCreate r # es) = r # requests_sent es"
| "requests_sent (ChatCompletionCreate r # es) = r # requests_sent es"
| "requests_sent (e # es) = requests_sent es"

definition prompts_sent :: "event list \<Rightarrow> string list" where
  "prompts_sent es = concat (map (\<lambda>r. map content (messages r)) (requests_sent es))"

text \<open>
  The outcome of a \<^verbatim>\<open>try\<close> block that an \<^verbatim>\<open>except Exception\<close> clause does not
  handle: an exception whose class is outside \<^verbatim>\<open>Exception\<close>.
\<close>

fun uncaught :: "exn + string \<Rightarrow> bool" where
  "uncaught (Inl (Exn c e)) = (\<not> is_Exception c)"
| "uncaught (Inr t) = False"

subsection \<open>Example runs\<close>

text \<open>
  A world with no environment variables in which the shell, the Anthropic endpoint and the
  OpenAI endpoint each answer every call the same way; a command line for the target
  \<^verbatim>\<open>HEAD~1\<close>; and the state of a fresh process.
\<close>

definition example_world ::
  "(exn + string) \<Rightarrow> (exn + string list) \<Rightarrow> (exn + string list) \<Rightarrow> world" where
  "example_world git claude chatgpt =
     \<lparr>getenv = (\<lambda>v. None), check_output = (\<lambda>c. git),
      messages_create = (\<lambda>k r. claude), ChatCompletion_create = (\<lambda>k r. chatgpt)\<rparr>"

definition example_argv :: "string option \<Rightarrow> string option \<Rightarrow> argv" where
  "example_argv k1 k2 =
     \<lparr>argv_target = ''HEAD~1'', argv_anthropic_key = k1, argv_openai_key = k2\<rparr>"

definition fresh :: state where
  "fresh = \<lparr>openai_api_key_global = None, trace = []\<rparr>"

section \<open>Properties\<close>

subsection \<open>Auxiliary facts\<close>

lemma trace_emit: "trace (emit e s) = trace s @ [e]"
  by (simp add: emit_def)

lemma requests_sent_append:
  "requests_sent (xs @ ys) = requests_sent xs @ requests_sent ys"
  by (induction xs rule: requests_sent.induct) simp_all

lemma parse_args_no_key:
  "argv_anthropic_key av = None \<Longrightarrow> getenv w ''ANTHROPIC_API_KEY'' = None
   \<Longrightarrow> anthropic_key (parse_args w av) = None"
  by (simp add: parse_args_def)

text \<open>The three ways out of \<^verbatim>\<open>get_git_diff\<close>.\<close>

lemma get_git_diff_ok:
  "check_output w (''git diff '' @ tgt @ '' -- . ':!package*.json'' @ [CHR 0x27]) = Inr out
   \<Longrightarrow> get_git_diff w self tgt s =
       (Inr out,
        emit (CheckOutput (''git diff '' @ tgt @ '' -- . ':!package*.json'' @ [CHR 0x27])) s)"
  by (simp add: get_git_diff_def)

lemma get_git_diff_failed:
  "check_output w (''git diff '' @ tgt @ '' -- . ':!package*.json'' @ [CHR 0x27])
     = Inl (Exn CalledProcessError e)
   \<Longrightarrow> get_git_diff w self tgt s =
       (Inr [],
        emit (Print (''Error getting git diff: '' @ e))
          (emit (CheckOutput (''git diff '' @ tgt @ '' -- . ':!package*.json'' @ [CHR 0x27]))
             s))"
  by (simp add: get_git_diff_def)

lemma get_git_diff_trace:
  "\<exists>rest. trace (snd (get_git_diff w self tgt s)) =
      trace s @ CheckOutput (''git diff '' @ tgt @ '' -- . ':!package*.json'' @ [CHR 0x27])
                # rest \<and> shell_commands rest = []"
  by (auto simp: get_git_diff_def Let_def trace_emit split: sum.splits exn.splits)

text \<open>The two ways through \<^verbatim>\<open>analyze_with_chatgpt\<close>: the guard, and the call.\<close>

lemma analyze_with_chatgpt_guard:
  "\<not> truthy (openai_api_key self)
   \<Longrightarrow> analyze_with_chatgpt w self d s = (Inr ''OpenAI API key not provided for fallback.'', s)"
  by (simp add: analyze_with_chatgpt_def)

lemma analyze_with_chatgpt_call:
  "truthy (openai_api_key self)
   \<Longrightarrow> analyze_with_chatgpt w self d s =
       (case chatgpt_try w s d of
          Inr t \<Rightarrow> Inr t
        | Inl (Exn c e) \<Rightarrow>
            if is_Exception c then Inr (''Error analyzing diff with ChatGPT: '' @ e)
            else Inl (Exn c e),
        emit (ChatCompletionCreate (chatgpt_request d)) s)"
  by (simp add: analyze_with_chatgpt_def Let_def split: sum.splits exn.splits)

lemma analyze_with_chatgpt_returns:
  "(\<exists>t. fst (analyze_with_chatgpt w self d s) = Inr t) =
     (\<not> (truthy (openai_api_key self) \<and> uncaught (chatgpt_try w s d)))"
proof (cases "truthy (openai_api_key self)")
  case False
  then show ?thesis by (simp add: analyze_with_chatgpt_guard)
next
  case True
  show ?thesis
  proof (cases "chatgpt_try w s d")
    case (Inr t)
    with True show ?thesis by (simp add: analyze_with_chatgpt_call)
  next
    case (Inl x)
    with True show ?thesis by (cases x) (simp add: analyze_with_chatgpt_call)
  qed
qed


lemma analyze_with_claude_fallback:
  "claude_try w self d = Inl (Exn c e) \<Longrightarrow> is_Exception c \<Longrightarrow> truthy (openai_api_key self)
   \<Longrightarrow> analyze_with_claude w self d s =
       analyze_with_chatgpt w self d
         (emit (Print ''Falling back to ChatGPT...'')
            (emit (Print (''Error with Claude API: '' @ e))
               (emit (MessagesCreate (claude_request d)) s)))"
  by (simp add: analyze_with_claude_def)

lemma analyze_with_claude_no_fallback:
  "claude_try w self d = Inl (Exn c e) \<Longrightarrow> is_Exception c \<Longrightarrow> \<not> truthy (openai_api_key self)
   \<Longrightarrow> analyze_with_claude w self d s =
       (Inr (''Error analyzing diff: '' @ e),
        emit (Print (''Error with Claude API: '' @ e))
          (emit (MessagesCreate (claude_request d)) s))"
  by (simp add: analyze_with_claude_def)

lemma chatgpt_try_trace: "chatgpt_try w (s\<lparr>trace := es\<rparr>) d = chatgpt_try w s d"
  by (simp add: chatgpt_try_def)



text \<open>The events each analysis function adds to the trace.\<close>

lemma analyze_with_chatgpt_trace:
  "trace (snd (analyze_with_chatgpt w self d s)) =
     trace s @ (if truthy (openai_api_key self)
                then [ChatCompletionCreate (chatgpt_request d)] else [])"
  by (simp add: analyze_with_chatgpt_def Let_def trace_emit split: sum.splits exn.splits)

lemma analyze_with_claude_trace:
  "trace (snd (analyze_with_claude w self d s)) =
     trace s @ MessagesCreate (claude_request d) #
       (case claude_try w self d of
          Inr t \<Rightarrow> []
        | Inl (Exn c e) \<Rightarrow>
            if is_Exception c
            then Print (''Error with Claude API: '' @ e) #
                   (if truthy (openai_api_key self)
                    then [Print ''Falling back to ChatGPT...'',
                          ChatCompletionCreate (chatgpt_request d)]
                    else [])
            else [])"
  by (simp add: analyze_with_claude_def Let_def analyze_with_chatgpt_trace trace_emit
           split: sum.splits exn.splits)

lemma get_git_diff_requests:
  "\<exists>es. trace (snd (get_git_diff w self tgt s)) = trace s @ es \<and> requests_sent es = []"
  by (auto simp: get_git_diff_def Let_def trace_emit split: sum.splits exn.splits)

lemma DiffAnalyzer_init_trace: "trace (snd (DiffAnalyzer_init k1 k2 s)) = trace s"
  by (simp add: DiffAnalyzer_init_def)

text \<open>Every request a function adds to the trace has the token budget of the source.\<close>

lemma analyze_with_claude_requests:
  "\<exists>es. trace (snd (analyze_with_claude w self d s)) = trace s @ es
        \<and> requests_sent es \<noteq> []
        \<and> list_all (\<lambda>r. max_tokens r = 1000) (requests_sent es)"
  by (simp add: analyze_with_claude_trace claude_request_def chatgpt_request_def
        split: sum.splits exn.splits)

lemma main_requests:
  "\<exists>es. trace (snd (main w av s)) = trace s @ es
        \<and> list_all (\<lambda>r. max_tokens r = 1000) (requests_sent es)"
proof (cases "truthy (anthropic_key (parse_args w av))")
  case False
  then show ?thesis
    by (simp add: main_def Let_def trace_emit)
next
  case True
  obtain analyzer s1 where
    init: "DiffAnalyzer_init (anthropic_key (parse_args w av)) (openai_key (parse_args w av)) s
             = (analyzer, s1)"
    by fastforce
  obtain r s2 where diff: "get_git_diff w analyzer (target (parse_args w av)) s1 = (r, s2)"
    by fastforce
  have "trace s1 = trace s"
    using DiffAnalyzer_init_trace
            [of "anthropic_key (parse_args w av)" "openai_key (parse_args w av)" s] init
    by simp
  moreover obtain es1 where "trace s2 = trace s1 @ es1" and "requests_sent es1 = []"
    using get_git_diff_requests [of w analyzer "target (parse_args w av)" s1] diff by auto
  ultimately have s2: "trace s2 = trace s @ es1" and es1: "requests_sent es1 = []"
    by simp_all
  show ?thesis
  proof (cases r)
    case (Inl x)
    with True init diff s2 es1 show ?thesis
      by (simp add: main_def Let_def)
  next
    case (Inr diff_text)
    show ?thesis
    proof (cases "diff_text = []")
      case True
      with \<open>truthy (anthropic_key (parse_args w av))\<close> Inr init diff s2 es1 show ?thesis
        by (simp add: main_def Let_def trace_emit requests_sent_append)
    next
      case False
      obtain ra s3 where claude: "analyze_with_claude w analyzer diff_text s2 = (ra, s3)"
        by fastforce
      obtain es2 where "trace s3 = trace s2 @ es2"
        and "list_all (\<lambda>r. max_tokens r = 1000) (requests_sent es2)"
        using analyze_with_claude_requests [of w analyzer diff_text s2] claude by auto
      with \<open>truthy (anthropic_key (parse_args w av))\<close> Inr False init diff s2 es1 claude
      show ?thesis
        by (cases ra) (simp_all add: main_def Let_def trace_emit requests_sent_append)
    qed
  qed
qed

subsection \<open>Claims about the credential check and the diff retrieval\<close>

text \<open>
  C1.  When the Anthropic key is absent after argument parsing (\<^verbatim>\<open>None\<close>, as when neither
  the flag nor the environment variable is given, or the empty string), \<open>main\<close> prints
  the message about the missing key and returns: the state is the one it started from but
  for that line of output, so no analyzer was constructed (\<^verbatim>\<open>openai.api_key\<close> is
  untouched) and neither the shell nor an endpoint was called.
\<close>

theorem main_without_anthropic_key:
  assumes "\<not> truthy (anthropic_key (parse_args w av))"
  shows "main w av s =
           (Inr (),
            s\<lparr>trace := trace s @
               [Print ''Error: Anthropic API key not provided. Set ANTHROPIC_API_KEY environment variable or use --anthropic-key'']\<rparr>)
         \<and> filter external_call (new_events s (snd (main w av s))) = []"
  using assms by (simp add: main_def Let_def emit_def new_events_def)

theorem main_without_anthropic_key_witness:
  "main (example_world (Inr ''+x'') (Inr [''one hour'']) (Inr [''two hours'']))
        (example_argv None None) fresh =
     (Inr (),
      \<lparr>openai_api_key_global = None,
       trace = [Print ''Error: Anthropic API key not provided. Set ANTHROPIC_API_KEY environment variable or use --anthropic-key'']\<rparr>)"
proof -
  let ?w = "example_world (Inr ''+x'') (Inr [''one hour'']) (Inr [''two hours''])"
  have "anthropic_key (parse_args ?w (example_argv None None)) = None"
    by (rule parse_args_no_key) (simp_all add: example_world_def example_argv_def)
  then have "\<not> truthy (anthropic_key (parse_args ?w (example_argv None None)))"
    by simp
  from main_without_anthropic_key [OF this, of fresh] show ?thesis
    by (simp add: fresh_def)
qed

text \<open>
  C2.  For every target, when the \<^verbatim>\<open>git diff\<close> command exits with a non-zero status, so
  that \<^verbatim>\<open>check_output\<close> raises \<^verbatim>\<open>CalledProcessError\<close>, \<open>get_git_diff\<close> reports the
  error on the output and returns the empty string instead of raising.  \<open>main\<close>, run with
  an Anthropic key on that target, then prints that no diff was found and returns: its
  events are the shell command and the two lines of output, and no request is sent.
\<close>

theorem git_diff_failure_stops_main:
  assumes "check_output w (''git diff '' @ tgt @ '' -- . ':!package*.json'' @ [CHR 0x27])
             = Inl (Exn CalledProcessError e)"
  shows "get_git_diff w self tgt s =
           (Inr [],
            s\<lparr>trace := trace s @
               [CheckOutput (''git diff '' @ tgt @ '' -- . ':!package*.json'' @ [CHR 0x27]),
                Print (''Error getting git diff: '' @ e)]\<rparr>)
         \<and> (truthy (anthropic_key (parse_args w av)) \<and> argv_target av = tgt \<longrightarrow>
              fst (main w av s) = Inr ()
              \<and> new_events s (snd (main w av s)) =
                  [CheckOutput (''git diff '' @ tgt @ '' -- . ':!package*.json'' @ [CHR 0x27]),
                   Print (''Error getting git diff: '' @ e),
                   Print ''No diff found or error occurred'']
              \<and> requests_sent (new_events s (snd (main w av s))) = [])"
proof -
  have target: "target (parse_args w av) = argv_target av"
    by (simp add: parse_args_def)
  show ?thesis
    using assms
    by (simp add: main_def Let_def target DiffAnalyzer_init_def get_git_diff_failed
          emit_def new_events_def)
qed

theorem git_diff_failure_stops_main_witness:
  "main (example_world (Inl (Exn CalledProcessError ''exit status 128''))
           (Inr [''one hour'']) (Inr [''two hours'']))
        (example_argv (Some ''key-a'') (Some ''key-o'')) fresh =
     (Inr (),
      \<lparr>openai_api_key_global = Some ''key-o'',
       trace = [CheckOutput (''git diff HEAD~1 -- . ':!package*.json'' @ [CHR 0x27]),
                Print ''Error getting git diff: exit status 128'',
                Print ''No diff found or error occurred'']\<rparr>)"
proof -
  let ?w = "example_world (Inl (Exn CalledProcessError ''exit status 128''))
              (Inr [''one hour'']) (Inr [''two hours''])"
  let ?av = "example_argv (Some ''key-a'') (Some ''key-o'')"
  have failed: "check_output ?w (''git diff '' @ ''HEAD~1'' @ '' -- . ':!package*.json'' @ [CHR 0x27])
                  = Inl (Exn CalledProcessError ''exit status 128'')"
    by (simp add: example_world_def)
  have key: "truthy (anthropic_key (parse_args ?w ?av)) \<and> argv_target ?av = ''HEAD~1''"
    by (simp add: parse_args_def example_argv_def)
  have init: "openai_api_key_global (snd (main ?w ?av fresh)) = Some ''key-o''"
    using failed
    by (simp add: main_def Let_def parse_args_def example_argv_def DiffAnalyzer_init_def
          get_git_diff_failed emit_def fresh_def)
  from git_diff_failure_stops_main [OF failed, of _ _ ?av] key
  have "fst (main ?w ?av fresh) = Inr ()"
    and "new_events fresh (snd (main ?w ?av fresh)) =
           [CheckOutput (''git diff '' @ ''HEAD~1'' @ '' -- . ':!package*.json'' @ [CHR 0x27]),
            Print (''Error getting git diff: '' @ ''exit status 128''),
            Print ''No diff found or error occurred'']"
    by blast+
  then have "fst (main ?w ?av fresh) = Inr ()"
    and "trace (snd (main ?w ?av fresh)) =
           [CheckOutput (''git diff HEAD~1 -- . ':!package*.json'' @ [CHR 0x27]),
            Print ''Error getting git diff: exit status 128'',
            Print ''No diff found or error occurred'']"
    by (simp_all add: new_events_def fresh_def)
  with init show ?thesis
    by (cases "main ?w ?av fresh") (auto intro: state.equality)
qed

text \<open>
  C5.  For every target, whatever the shell answers, \<open>get_git_diff\<close> hands the shell one
  command, which is \<^verbatim>\<open>git diff \<close>, the target, and \<^verbatim>\<open> -- . ':!package*.json'\<close>; the quoted
  exclusion pattern stands in it verbatim.
\<close>

theorem get_git_diff_command:
  "shell_commands (new_events s (snd (get_git_diff w self tgt s))) =
     [''git diff '' @ tgt @ '' -- . ':!package*.json'' @ [CHR 0x27]]
   \<and> sublist ([CHR 0x27] @ '':!package*.json'' @ [CHR 0x27])
        (''git diff '' @ tgt @ '' -- . ':!package*.json'' @ [CHR 0x27])"
proof -
  obtain rest where
    "trace (snd (get_git_diff w self tgt s)) =
       trace s @ CheckOutput (''git diff '' @ tgt @ '' -- . ':!package*.json'' @ [CHR 0x27])
                 # rest"
    and "shell_commands rest = []"
    using get_git_diff_trace by blast
  then have "shell_commands (new_events s (snd (get_git_diff w self tgt s))) =
               [''git diff '' @ tgt @ '' -- . ':!package*.json'' @ [CHR 0x27]]"
    by (simp add: new_events_def)
  moreover have "''git diff '' @ tgt @ '' -- . ':!package*.json'' @ [CHR 0x27] =
                   (''git diff '' @ tgt @ '' -- . '')
                   @ ([CHR 0x27] @ '':!package*.json'' @ [CHR 0x27]) @ []"
    by simp
  then have "sublist ([CHR 0x27] @ '':!package*.json'' @ [CHR 0x27])
               (''git diff '' @ tgt @ '' -- . ':!package*.json'' @ [CHR 0x27])"
    unfolding sublist_def by blast
  ultimately show ?thesis by simp
qed

theorem get_git_diff_command_witness:
  "shell_commands
     (trace (snd (get_git_diff
        (example_world (Inr ''+x'') (Inr [''one hour'']) (Inr [''two hours'']))
        \<lparr>anthropic = Some ''key-a'', openai_api_key = None\<rparr> ''HEAD~1'' fresh))) =
     [''git diff HEAD~1 -- . ':!package*.json'' @ [CHR 0x27]]"
  using get_git_diff_command
    [of fresh "example_world (Inr ''+x'') (Inr [''one hour'']) (Inr [''two hours''])"
        "\<lparr>anthropic = Some ''key-a'', openai_api_key = None\<rparr>" "''HEAD~1''"]
  by (simp add: new_events_def fresh_def)

subsection \<open>Claims about the primary call and the fallback\<close>

text \<open>
  C3.  For every diff text, when the \<^verbatim>\<open>try\<close> block of \<open>analyze_with_claude\<close> raises
  an error (an instance of \<^verbatim>\<open>Exception\<close>) and an OpenAI key is configured, \<open>analyze_with_claude\<close> reports the error, announces
  the fallback and returns what \<open>analyze_with_chatgpt\<close> returns on the same diff text.
  The prompt built there equals, character for character, the prompt built by
  \<open>analyze_with_claude\<close>: the run sends two requests, and both carry that one prompt.
\<close>

theorem fallback_same_prompt:
  assumes "claude_try w self d = Inl (Exn c e)"
    and "is_Exception c"
    and "truthy (openai_api_key self)"
  shows "analyze_with_claude w self d s =
           analyze_with_chatgpt w self d
             (s\<lparr>trace := trace s @
                [MessagesCreate (claude_request d),
                 Print (''Error with Claude API: '' @ e),
                 Print ''Falling back to ChatGPT...'']\<rparr>)
         \<and> new_events s (snd (analyze_with_claude w self d s)) =
             [MessagesCreate (claude_request d),
              Print (''Error with Claude API: '' @ e),
              Print ''Falling back to ChatGPT...'',
              ChatCompletionCreate (chatgpt_request d)]
         \<and> chatgpt_prompt d = claude_prompt d
         \<and> messages (chatgpt_request d) = messages (claude_request d)
         \<and> prompts_sent (new_events s (snd (analyze_with_claude w self d s))) =
             [claude_prompt d, claude_prompt d]"
proof -
  have same: "chatgpt_prompt d = claude_prompt d"
    by (simp add: chatgpt_prompt_def claude_prompt_def)
  have call: "analyze_with_claude w self d s =
                analyze_with_chatgpt w self d
                  (s\<lparr>trace := trace s @
                     [MessagesCreate (claude_request d),
                      Print (''Error with Claude API: '' @ e),
                      Print ''Falling back to ChatGPT...'']\<rparr>)"
    using assms by (simp add: analyze_with_claude_fallback emit_def)
  have events: "new_events s (snd (analyze_with_claude w self d s)) =
                  [MessagesCreate (claude_request d),
                   Print (''Error with Claude API: '' @ e),
                   Print ''Falling back to ChatGPT...'',
                   ChatCompletionCreate (chatgpt_request d)]"
    using assms by (simp add: analyze_with_claude_trace new_events_def)
  have msgs: "messages (chatgpt_request d) = messages (claude_request d)"
    by (simp add: chatgpt_request_def claude_request_def same)
  have "prompts_sent (new_events s (snd (analyze_with_claude w self d s))) =
          [claude_prompt d, claude_prompt d]"
    by (simp add: events prompts_sent_def chatgpt_request_def claude_request_def same)
  with same call events msgs show ?thesis by simp
qed

theorem fallback_same_prompt_witness:
  "analyze_with_claude
     (example_world (Inr ''+x'') (Inl (Exn OtherException ''overloaded'')) (Inr [''two hours'']))
     \<lparr>anthropic = Some ''key-a'', openai_api_key = Some ''key-o''\<rparr> ''+x'' fresh =
   (Inr ''two hours'',
    \<lparr>openai_api_key_global = None,
     trace = [MessagesCreate (claude_request ''+x''),
              Print ''Error with Claude API: overloaded'',
              Print ''Falling back to ChatGPT...'',
              ChatCompletionCreate (chatgpt_request ''+x'')]\<rparr>)"
proof -
  let ?w = "example_world (Inr ''+x'') (Inl (Exn OtherException ''overloaded''))
              (Inr [''two hours''])"
  let ?self = "\<lparr>anthropic = Some ''key-a'', openai_api_key = Some ''key-o''\<rparr>"
  have failed: "claude_try ?w ?self ''+x'' = Inl (Exn OtherException ''overloaded'')"
    by (simp add: claude_try_def example_world_def)
  have key: "truthy (openai_api_key ?self)"
    by simp
  have answer: "chatgpt_try ?w s ''+x'' = Inr ''two hours''" for s
    by (simp add: chatgpt_try_def example_world_def)
  have caught: "is_Exception OtherException"
    by simp
  from fallback_same_prompt [OF failed caught key, of fresh] show ?thesis
    by (simp add: analyze_with_chatgpt_call answer emit_def fresh_def)
qed

text \<open>
  C4.  For every diff text, when the \<^verbatim>\<open>try\<close> block of \<open>analyze_with_claude\<close> raises
  an error \<open>e\<close> (an instance of \<^verbatim>\<open>Exception\<close>) and no OpenAI key is configured, \<open>analyze_with_claude\<close> returns
  \<^verbatim>\<open>Error analyzing diff: \<close> followed by the text of \<open>e\<close>, after one request and one line of
  output.  When that happens in \<open>main\<close> (an Anthropic key, a non-empty diff from the
  shell), the last thing \<open>main\<close> prints, under the results heading, is that string.
\<close>

theorem primary_error_without_fallback:
  assumes "claude_try w self d = Inl (Exn c e)"
    and "is_Exception c"
    and "\<not> truthy (openai_api_key self)"
  shows "analyze_with_claude w self d s =
           (Inr (''Error analyzing diff: '' @ e),
            s\<lparr>trace := trace s @
               [MessagesCreate (claude_request d),
                Print (''Error with Claude API: '' @ e)]\<rparr>)
         \<and> (truthy (anthropic_key (parse_args w av))
              \<and> self = \<lparr>anthropic = anthropic_key (parse_args w av),
                         openai_api_key = openai_key (parse_args w av)\<rparr>
              \<and> check_output w
                   (''git diff '' @ argv_target av @ '' -- . ':!package*.json'' @ [CHR 0x27])
                   = Inr d
              \<and> d \<noteq> [] \<longrightarrow>
              fst (main w av s) = Inr ()
              \<and> new_events s (snd (main w av s)) =
                  [CheckOutput
                     (''git diff '' @ argv_target av @ '' -- . ':!package*.json'' @ [CHR 0x27]),
                   MessagesCreate (claude_request d),
                   Print (''Error with Claude API: '' @ e),
                   Print ''\<newline>Analysis Results:'',
                   Print ''----------------'',
                   Print (''Error analyzing diff: '' @ e)])"
proof -
  have target: "target (parse_args w av) = argv_target av"
    by (simp add: parse_args_def)
  have ret: "analyze_with_claude w self d s' =
               (Inr (''Error analyzing diff: '' @ e),
                s'\<lparr>trace := trace s' @
                   [MessagesCreate (claude_request d),
                    Print (''Error with Claude API: '' @ e)]\<rparr>)" for s'
    using assms by (simp add: analyze_with_claude_no_fallback emit_def)
  have "fst (main w av s) = Inr ()
        \<and> new_events s (snd (main w av s)) =
            [CheckOutput
               (''git diff '' @ argv_target av @ '' -- . ':!package*.json'' @ [CHR 0x27]),
             MessagesCreate (claude_request d),
             Print (''Error with Claude API: '' @ e),
             Print ''\<newline>Analysis Results:'',
             Print ''----------------'',
             Print (''Error analyzing diff: '' @ e)]"
    if key: "truthy (anthropic_key (parse_args w av))"
      and self: "\<lparr>anthropic = anthropic_key (parse_args w av),
                  openai_api_key = openai_key (parse_args w av)\<rparr> = self"
      and diff: "check_output w
                   (''git diff '' @ argv_target av @ '' -- . ':!package*.json'' @ [CHR 0x27])
                   = Inr d"
      and nonempty: "d \<noteq> []"
    using key nonempty
    by (simp add: main_def Let_def target DiffAnalyzer_init_def self
          get_git_diff_ok [OF diff] ret emit_def new_events_def)
  with ret [of s] show ?thesis by blast
qed

theorem primary_error_without_fallback_witness:
  "main (example_world (Inr ''+x'') (Inl (Exn OtherException ''overloaded'')) (Inr [''two hours'']))
        (example_argv (Some ''key-a'') None) fresh =
     (Inr (),
      \<lparr>openai_api_key_global = None,
       trace = [CheckOutput (''git diff HEAD~1 -- . ':!package*.json'' @ [CHR 0x27]),
                MessagesCreate (claude_request ''+x''),
                Print ''Error with Claude API: overloaded'',
                Print ''\<newline>Analysis Results:'',
                Print ''----------------'',
                Print ''Error analyzing diff: overloaded'']\<rparr>)"
proof -
  let ?w = "example_world (Inr ''+x'') (Inl (Exn OtherException ''overloaded''))
              (Inr [''two hours''])"
  let ?av = "example_argv (Some ''key-a'') None"
  let ?self = "\<lparr>anthropic = Some ''key-a'', openai_api_key = None\<rparr>"
  have failed: "claude_try ?w ?self ''+x'' = Inl (Exn OtherException ''overloaded'')"
    by (simp add: claude_try_def example_world_def)
  have nokey: "\<not> truthy (openai_api_key ?self)"
    by simp
  have pre: "truthy (anthropic_key (parse_args ?w ?av))
             \<and> ?self = \<lparr>anthropic = anthropic_key (parse_args ?w ?av),
                          openai_api_key = openai_key (parse_args ?w ?av)\<rparr>
             \<and> check_output ?w
                  (''git diff '' @ argv_target ?av @ '' -- . ':!package*.json'' @ [CHR 0x27])
                  = Inr ''+x''
             \<and> ''+x'' \<noteq> []"
    by (simp add: parse_args_def example_argv_def example_world_def)
  have glob: "openai_api_key_global (snd (main ?w ?av fresh)) = None"
    using failed
    by (simp add: main_def Let_def parse_args_def example_argv_def DiffAnalyzer_init_def
          example_world_def get_git_diff_def analyze_with_claude_def emit_def fresh_def)
  have caught: "is_Exception OtherException"
    by simp
  from primary_error_without_fallback [OF failed caught nokey, of _ ?av] pre
  have "fst (main ?w ?av fresh) = Inr ()"
    and "new_events fresh (snd (main ?w ?av fresh)) =
           [CheckOutput
              (''git diff '' @ argv_target ?av @ '' -- . ':!package*.json'' @ [CHR 0x27]),
            MessagesCreate (claude_request ''+x''),
            Print (''Error with Claude API: '' @ ''overloaded''),
            Print ''\<newline>Analysis Results:'',
            Print ''----------------'',
            Print (''Error analyzing diff: '' @ ''overloaded'')]"
    by blast+
  then have "fst (main ?w ?av fresh) = Inr ()"
    and "trace (snd (main ?w ?av fresh)) =
           [CheckOutput (''git diff HEAD~1 -- . ':!package*.json'' @ [CHR 0x27]),
            MessagesCreate (claude_request ''+x''),
            Print ''Error with Claude API: overloaded'',
            Print ''\<newline>Analysis Results:'',
            Print ''----------------'',
            Print ''Error analyzing diff: overloaded'']"
    by (simp_all add: new_events_def fresh_def example_argv_def)
  with glob show ?thesis
    by (cases "main ?w ?av fresh") (auto intro: state.equality)
qed

text \<open>
  C8.  As stated the claim fails: \<open>analyze_with_chatgpt\<close> catches with
  \<^verbatim>\<open>except Exception\<close>, so an exception outside that class raised during the call to
  the OpenAI endpoint, such as the \<^verbatim>\<open>KeyboardInterrupt\<close> of a user who interrupts the
  request, leaves the function.
\<close>

theorem chatgpt_keyboard_interrupt_propagates:
  "analyze_with_chatgpt
     (example_world (Inr ''+x'') (Inl (Exn OtherException ''overloaded''))
        (Inl (Exn KeyboardInterrupt [])))
     \<lparr>anthropic = Some ''key-a'', openai_api_key = Some ''key-o''\<rparr> ''+x'' fresh =
   (Inl (Exn KeyboardInterrupt []),
    \<lparr>openai_api_key_global = None,
     trace = [ChatCompletionCreate (chatgpt_request ''+x'')]\<rparr>)"
  by (simp add: analyze_with_chatgpt_def chatgpt_try_def example_world_def emit_def fresh_def)

text \<open>
  C8, amended.  \<open>analyze_with_chatgpt\<close> never propagates an error, that is, an
  instance of \<^verbatim>\<open>Exception\<close>: when an OpenAI key is configured and its \<^verbatim>\<open>try\<close> block
  raises such an \<open>e\<close>, it returns \<^verbatim>\<open>Error analyzing diff with ChatGPT: \<close> followed by
  the text of \<open>e\<close>, and the one event is the request.  It returns a string on every
  input but one kind: a key is configured and the \<^verbatim>\<open>try\<close> block raises an exception
  outside \<^verbatim>\<open>Exception\<close>, which then leaves the function as it is.
\<close>

theorem chatgpt_error_is_text:
  "((\<exists>t. fst (analyze_with_chatgpt w self d s) = Inr t) =
      (\<not> (truthy (openai_api_key self) \<and> uncaught (chatgpt_try w s d))))
   \<and> (truthy (openai_api_key self) \<and> chatgpt_try w s d = Inl (Exn c e) \<and> is_Exception c \<longrightarrow>
        analyze_with_chatgpt w self d s =
          (Inr (''Error analyzing diff with ChatGPT: '' @ e),
           s\<lparr>trace := trace s @ [ChatCompletionCreate (chatgpt_request d)]\<rparr>))
   \<and> (truthy (openai_api_key self) \<and> chatgpt_try w s d = Inl (Exn c e) \<and> \<not> is_Exception c \<longrightarrow>
        analyze_with_chatgpt w self d s =
          (Inl (Exn c e),
           s\<lparr>trace := trace s @ [ChatCompletionCreate (chatgpt_request d)]\<rparr>))"
  using analyze_with_chatgpt_returns [of w self d s]
  by (simp add: analyze_with_chatgpt_call emit_def)

theorem chatgpt_error_is_text_witness:
  "analyze_with_chatgpt
     (example_world (Inr ''+x'') (Inl (Exn OtherException ''overloaded''))
        (Inl (Exn OtherException ''rate limit'')))
     \<lparr>anthropic = Some ''key-a'', openai_api_key = Some ''key-o''\<rparr> ''+x'' fresh =
   (Inr ''Error analyzing diff with ChatGPT: rate limit'',
    \<lparr>openai_api_key_global = None,
     trace = [ChatCompletionCreate (chatgpt_request ''+x'')]\<rparr>)"
proof -
  let ?w = "example_world (Inr ''+x'') (Inl (Exn OtherException ''overloaded''))
              (Inl (Exn OtherException ''rate limit''))"
  let ?self = "\<lparr>anthropic = Some ''key-a'', openai_api_key = Some ''key-o''\<rparr>"
  have pre: "truthy (openai_api_key ?self)
             \<and> chatgpt_try ?w fresh ''+x'' = Inl (Exn OtherException ''rate limit'')
             \<and> is_Exception OtherException"
    by (simp add: chatgpt_try_def example_world_def)
  with chatgpt_error_is_text [of ?w ?self "''+x''" fresh OtherException "''rate limit''"]
  show ?thesis
    by (simp add: fresh_def)
qed

text \<open>
  C10.  The guard of \<open>analyze_with_chatgpt\<close> is never taken on the fallback path.
  \<open>analyze_with_claude\<close> announces the fallback, and calls \<open>analyze_with_chatgpt\<close>,
  only with an OpenAI key configured; and when its \<^verbatim>\<open>try\<close> block raises an error (an
  instance of \<^verbatim>\<open>Exception\<close>) with a key configured, the call goes past the guard: the
  request to the OpenAI endpoint is sent, the result is the outcome of that request (its
  answer, its error as text, or an exception outside \<^verbatim>\<open>Exception\<close> passing through),
  and it is not what the guard would have returned from the state of the call.
\<close>

theorem fallback_guard_unreachable:
  "(Print ''Falling back to ChatGPT...''
      \<in> set (new_events s (snd (analyze_with_claude w self d s)))
    \<longrightarrow> truthy (openai_api_key self))
   \<and> (claude_try w self d = Inl (Exn c e) \<and> is_Exception c \<and> truthy (openai_api_key self)
        \<longrightarrow>
        analyze_with_claude w self d s =
          (case chatgpt_try w s d of
             Inr t \<Rightarrow> Inr t
           | Inl (Exn c' e') \<Rightarrow>
               if is_Exception c' then Inr (''Error analyzing diff with ChatGPT: '' @ e')
               else Inl (Exn c' e'),
           s\<lparr>trace := trace s @
              [MessagesCreate (claude_request d),
               Print (''Error with Claude API: '' @ e),
               Print ''Falling back to ChatGPT...'',
               ChatCompletionCreate (chatgpt_request d)]\<rparr>)
        \<and> analyze_with_claude w self d s \<noteq>
            (Inr ''OpenAI API key not provided for fallback.'',
             s\<lparr>trace := trace s @
                [MessagesCreate (claude_request d),
                 Print (''Error with Claude API: '' @ e),
                 Print ''Falling back to ChatGPT...'']\<rparr>))"
proof -
  have announced: "truthy (openai_api_key self)"
    if "Print ''Falling back to ChatGPT...''
          \<in> set (new_events s (snd (analyze_with_claude w self d s)))"
    using that
    by (auto simp: analyze_with_claude_trace new_events_def split: sum.splits exn.splits if_splits)
  have past_guard:
    "analyze_with_claude w self d s =
       (case chatgpt_try w s d of
          Inr t \<Rightarrow> Inr t
        | Inl (Exn c' e') \<Rightarrow>
            if is_Exception c' then Inr (''Error analyzing diff with ChatGPT: '' @ e')
            else Inl (Exn c' e'),
        s\<lparr>trace := trace s @
           [MessagesCreate (claude_request d),
            Print (''Error with Claude API: '' @ e),
            Print ''Falling back to ChatGPT...'',
            ChatCompletionCreate (chatgpt_request d)]\<rparr>)"
    if "claude_try w self d = Inl (Exn c e)" and "is_Exception c"
      and "truthy (openai_api_key self)"
    using that
    by (simp add: analyze_with_claude_fallback analyze_with_chatgpt_call chatgpt_try_trace
          emit_def)
  have "analyze_with_claude w self d s \<noteq>
          (Inr ''OpenAI API key not provided for fallback.'',
           s\<lparr>trace := trace s @
              [MessagesCreate (claude_request d),
               Print (''Error with Claude API: '' @ e),
               Print ''Falling back to ChatGPT...'']\<rparr>)"
    if "claude_try w self d = Inl (Exn c e)" and "is_Exception c"
      and "truthy (openai_api_key self)"
  proof
    assume "analyze_with_claude w self d s =
              (Inr ''OpenAI API key not provided for fallback.'',
               s\<lparr>trace := trace s @
                  [MessagesCreate (claude_request d),
                   Print (''Error with Claude API: '' @ e),
                   Print ''Falling back to ChatGPT...'']\<rparr>)"
    then have "trace (snd (analyze_with_claude w self d s)) =
                 trace s @
                   [MessagesCreate (claude_request d),
                    Print (''Error with Claude API: '' @ e),
                    Print ''Falling back to ChatGPT...'']"
      by simp
    with that show False
      by (simp add: analyze_with_claude_trace)
  qed
  with announced past_guard show ?thesis by blast
qed

theorem fallback_guard_unreachable_witness:
  "analyze_with_claude
     (example_world (Inr ''+x'') (Inr []) (Inr [''two hours'', ''three hours'']))
     \<lparr>anthropic = Some ''key-a'', openai_api_key = Some ''key-o''\<rparr> ''+x'' fresh =
   (Inr ''two hours'',
    \<lparr>openai_api_key_global = None,
     trace = [MessagesCreate (claude_request ''+x''),
              Print ''Error with Claude API: list index out of range'',
              Print ''Falling back to ChatGPT...'',
              ChatCompletionCreate (chatgpt_request ''+x'')]\<rparr>)"
proof -
  let ?w = "example_world (Inr ''+x'') (Inr []) (Inr [''two hours'', ''three hours''])"
  let ?self = "\<lparr>anthropic = Some ''key-a'', openai_api_key = Some ''key-o''\<rparr>"
  have pre: "claude_try ?w ?self ''+x'' = Inl (Exn IndexError ''list index out of range'')
             \<and> is_Exception IndexError \<and> truthy (openai_api_key ?self)"
    by (simp add: claude_try_def example_world_def)
  have answer: "chatgpt_try ?w s ''+x'' = Inr ''two hours''" for s
    by (simp add: chatgpt_try_def example_world_def)
  from pre fallback_guard_unreachable
         [of fresh ?w ?self "''+x''" IndexError "''list index out of range''"]
  show ?thesis
    by (simp add: answer fresh_def)
qed

subsection \<open>Claims about the requests\<close>

text \<open>
  C6.  For every diff text (empty or not), every prompt that \<open>analyze_with_claude\<close>
  submits, to the Anthropic endpoint and on the fallback path to the OpenAI endpoint, is the
  fixed template followed by the diff text, unmodified; it submits at least the first.
  \<open>analyze_with_chatgpt\<close>, called on its own with an OpenAI key, submits that same
  prompt, and nothing without a key.  The diff text is therefore a contiguous part, and the
  end, of the prompt.
\<close>

theorem prompt_contains_diff:
  "(let p = ''ignoring the changes that were computer-generated, can you estimate how long this took a human to write this code, assuming they appropriately used AI to help them? please go section by section.\<newline>\<newline>Here's the diff to analyze:\<newline>'' @ d
    in list_all (\<lambda>q. q = p)
         (prompts_sent (new_events s (snd (analyze_with_claude w self d s))))
       \<and> take 1 (prompts_sent (new_events s (snd (analyze_with_claude w self d s)))) = [p]
       \<and> prompts_sent (new_events s (snd (analyze_with_chatgpt w self d s))) =
           (if truthy (openai_api_key self) then [p] else [])
       \<and> sublist d p \<and> suffix d p)"
proof -
  have claude: "claude_prompt d = ''ignoring the changes that were computer-generated, can you estimate how long this took a human to write this code, assuming they appropriately used AI to help them? please go section by section.\<newline>\<newline>Here's the diff to analyze:\<newline>'' @ d"
    by (simp add: claude_prompt_def)
  have chatgpt: "chatgpt_prompt d = ''ignoring the changes that were computer-generated, can you estimate how long this took a human to write this code, assuming they appropriately used AI to help them? please go section by section.\<newline>\<newline>Here's the diff to analyze:\<newline>'' @ d"
    by (simp add: chatgpt_prompt_def)
  have sent_claude:
    "prompts_sent (new_events s (snd (analyze_with_claude w self d s))) =
       claude_prompt d #
         (case claude_try w self d of
            Inr t \<Rightarrow> []
          | Inl (Exn c e) \<Rightarrow>
              if is_Exception c \<and> truthy (openai_api_key self) then [chatgpt_prompt d]
              else [])"
    by (simp add: analyze_with_claude_trace new_events_def prompts_sent_def
          claude_request_def chatgpt_request_def split: sum.splits exn.splits)
  have sent_chatgpt:
    "prompts_sent (new_events s (snd (analyze_with_chatgpt w self d s))) =
       (if truthy (openai_api_key self) then [chatgpt_prompt d] else [])"
    by (simp add: analyze_with_chatgpt_trace new_events_def prompts_sent_def
          chatgpt_request_def)
  have "sublist d (''ignoring the changes that were computer-generated, can you estimate how long this took a human to write this code, assuming they appropriately used AI to help them? please go section by section.\<newline>\<newline>Here's the diff to analyze:\<newline>'' @ d)"
    by (rule suffix_imp_sublist) (rule suffix_appendI, rule suffix_order.refl)
  moreover have "suffix d (''ignoring the changes that were computer-generated, can you estimate how long this took a human to write this code, assuming they appropriately used AI to help them? please go section by section.\<newline>\<newline>Here's the diff to analyze:\<newline>'' @ d)"
    by (rule suffix_appendI) (rule suffix_order.refl)
  ultimately show ?thesis
    unfolding Let_def sent_claude sent_chatgpt claude chatgpt
    by (simp split: sum.splits exn.splits)
qed

theorem prompt_contains_diff_witness:
  "prompts_sent
     (trace (snd (analyze_with_claude
        (example_world (Inr ''+x'') (Inl (Exn OtherException ''overloaded'')) (Inr [''two hours'']))
        \<lparr>anthropic = Some ''key-a'', openai_api_key = Some ''key-o''\<rparr> ''+x'' fresh))) =
     [''ignoring the changes that were computer-generated, can you estimate how long this took a human to write this code, assuming they appropriately used AI to help them? please go section by section.\<newline>\<newline>Here's the diff to analyze:\<newline>'' @ ''+x'',
      ''ignoring the changes that were computer-generated, can you estimate how long this took a human to write this code, assuming they appropriately used AI to help them? please go section by section.\<newline>\<newline>Here's the diff to analyze:\<newline>'' @ ''+x'']"
proof -
  let ?w = "example_world (Inr ''+x'') (Inl (Exn OtherException ''overloaded''))
              (Inr [''two hours''])"
  let ?self = "\<lparr>anthropic = Some ''key-a'', openai_api_key = Some ''key-o''\<rparr>"
  have two: "length (prompts_sent (new_events fresh (snd (analyze_with_claude ?w ?self ''+x'' fresh)))) = 2"
    by (simp add: analyze_with_claude_trace new_events_def prompts_sent_def claude_try_def
          example_world_def claude_request_def chatgpt_request_def)
  then obtain p1 p2 where
    sent: "prompts_sent (new_events fresh (snd (analyze_with_claude ?w ?self ''+x'' fresh))) = [p1, p2]"
    by (auto simp: length_Suc_conv numeral_2_eq_2)
  from prompt_contains_diff [of "''+x''" fresh ?w ?self]
  have "p1 = ''ignoring the changes that were computer-generated, can you estimate how long this took a human to write this code, assuming they appropriately used AI to help them? please go section by section.\<newline>\<newline>Here's the diff to analyze:\<newline>'' @ ''+x''"
    and "p2 = ''ignoring the changes that were computer-generated, can you estimate how long this took a human to write this code, assuming they appropriately used AI to help them? please go section by section.\<newline>\<newline>Here's the diff to analyze:\<newline>'' @ ''+x''"
    unfolding Let_def sent by simp_all
  with sent show ?thesis
    by (simp add: new_events_def fresh_def)
qed

text \<open>
  C9.  Every request submitted to either endpoint carries \<^verbatim>\<open>max_tokens=1000\<close>: the
  keyword arguments of both calls do, for every diff text, and so does every request among
  the events of a run of \<open>analyze_with_claude\<close> (which always sends one), of
  \<open>analyze_with_chatgpt\<close> and of \<open>main\<close>.
\<close>

theorem max_tokens_bounded:
  "max_tokens (claude_request d) = 1000
   \<and> max_tokens (chatgpt_request d) = 1000
   \<and> requests_sent (new_events s (snd (analyze_with_claude w self d s))) \<noteq> []
   \<and> list_all (\<lambda>r. max_tokens r = 1000)
        (requests_sent (new_events s (snd (analyze_with_claude w self d s))))
   \<and> list_all (\<lambda>r. max_tokens r = 1000)
        (requests_sent (new_events s (snd (analyze_with_chatgpt w self d s))))
   \<and> list_all (\<lambda>r. max_tokens r = 1000)
        (requests_sent (new_events s (snd (main w av s))))"
proof -
  obtain es where "trace (snd (analyze_with_claude w self d s)) = trace s @ es"
    and "requests_sent es \<noteq> []"
    and "list_all (\<lambda>r. max_tokens r = 1000) (requests_sent es)"
    using analyze_with_claude_requests by blast
  then have claude:
    "requests_sent (new_events s (snd (analyze_with_claude w self d s))) \<noteq> []
     \<and> list_all (\<lambda>r. max_tokens r = 1000)
          (requests_sent (new_events s (snd (analyze_with_claude w self d s))))"
    by (simp add: new_events_def)
  have chatgpt:
    "list_all (\<lambda>r. max_tokens r = 1000)
       (requests_sent (new_events s (snd (analyze_with_chatgpt w self d s))))"
    by (simp add: analyze_with_chatgpt_trace new_events_def chatgpt_request_def)
  obtain es' where "trace (snd (main w av s)) = trace s @ es'"
    and "list_all (\<lambda>r. max_tokens r = 1000) (requests_sent es')"
    using main_requests by blast
  then have "list_all (\<lambda>r. max_tokens r = 1000)
               (requests_sent (new_events s (snd (main w av s))))"
    by (simp add: new_events_def)
  with claude chatgpt show ?thesis
    by (simp add: claude_request_def chatgpt_request_def)
qed

theorem max_tokens_bounded_witness:
  "map max_tokens
     (requests_sent (trace (snd (main
        (example_world (Inr ''+x'') (Inl (Exn OtherException ''overloaded''))
           (Inr [''two hours'']))
        (example_argv (Some ''key-a'') (Some ''key-o'')) fresh)))) = [1000, 1000]"
proof -
  let ?w = "example_world (Inr ''+x'') (Inl (Exn OtherException ''overloaded''))
              (Inr [''two hours''])"
  let ?av = "example_argv (Some ''key-a'') (Some ''key-o'')"
  have two: "length (requests_sent (new_events fresh (snd (main ?w ?av fresh)))) = 2"
    by (simp add: main_def Let_def parse_args_def example_argv_def DiffAnalyzer_init_def
          example_world_def get_git_diff_def analyze_with_claude_def claude_try_def
          analyze_with_chatgpt_def chatgpt_try_def emit_def fresh_def new_events_def)
  then obtain r1 r2 where
    sent: "requests_sent (new_events fresh (snd (main ?w ?av fresh))) = [r1, r2]"
    by (auto simp: length_Suc_conv numeral_2_eq_2)
  from max_tokens_bounded [of _ fresh ?w _ ?av]
  have "max_tokens r1 = 1000" and "max_tokens r2 = 1000"
    unfolding sent by simp_all
  with sent show ?thesis
    by (simp add: new_events_def fresh_def)
qed

subsection \<open>The claim about what \<open>main\<close> prints\<close>



end
